theory Spec2Isabelle
  imports
    Complex_Main
    "HOL-Library.Multiset"
    "HOL-Library.Product_Lexorder"
    "HOL-Library.Char_ord"
    "HOL-Library.List_Lexorder"
begin

section \<open>Data model of Dashboard.py\<close>

text \<open>
  The dashboard keeps one pandas frame, built by \<open>load_data\<close>. A row of that frame is a
  \<open>stock_record\<close>. A cell that pandas holds as NaN, NaT or None is \<open>None\<close> here. Numbers are
  float64 in the program; a finite float is modelled by the rational it denotes, so
  comparisons are exact, and the float operations of the code round their exact result
  to float64 (\<open>r64\<close> below).

  A timestamp is a calendar date with a time of day. \<open>.dt.date\<close> keeps the calendar date
  only; pandas orders timestamps and dates chronologically, which is the lexicographic
  order of the components.
\<close>

record timestamp =
  year :: int
  month :: nat
  day :: nat
  secs :: nat

type_synonym date = "int \<times> nat \<times> nat"

definition dt_date :: "timestamp \<Rightarrow> date" where
  "dt_date t = (year t, month t, day t)"

definition ts_key :: "timestamp \<Rightarrow> int \<times> nat \<times> nat \<times> nat" where
  "ts_key t = (year t, month t, day t, secs t)"

record stock_record =
  rdate :: "timestamp option"
  symbol :: string
  ltp :: "rat option"
  pchng :: "rat option"
  series_type :: string
  market_cap :: "rat option"
  sector :: "string option"
  industry :: "string option"
  roe :: "rat option"
  roce :: "rat option"
  pe_ratio :: "rat option"
  book_value :: "rat option"
  dividend_yield :: "rat option"
  about :: "string option"
  month_col :: "string option"

text \<open>
  \<open>month_col\<close> is the column \<open>'Month'\<close>, which \<open>load_data\<close> does not create: it is \<open>None\<close> in
  every row until the Month view assigns it.
\<close>

datatype error = DataLoadError | InvalidRangeError

section \<open>Filters of \<open>main\<close>\<close>

text \<open>
  \<open>data[data["Today's Date"].dt.date == selected_date]\<close> (line 351). A row whose date
  is NaT compares false.
\<close>

definition on_date :: "date \<Rightarrow> stock_record \<Rightarrow> bool" where
  "on_date d r = (case rdate r of None \<Rightarrow> False | Some t \<Rightarrow> dt_date t = d)"

definition filterByExactDate :: "stock_record list \<Rightarrow> date \<Rightarrow> stock_record list" where
  "filterByExactDate data d = filter (on_date d) data"

text \<open>
  \<open>data[(data["Today's Date"].dt.date >= start_date) & (data["Today's Date"].dt.date <= end_date)]\<close>
  (lines 681-684). The expression has no raise and no check of \<open>start_date\<close> against
  \<open>end_date\<close>, so the result is always \<open>Inr\<close>.
\<close>

definition in_range :: "date \<Rightarrow> date \<Rightarrow> stock_record \<Rightarrow> bool" where
  "in_range s e r = (case rdate r of None \<Rightarrow> False | Some t \<Rightarrow> s \<le> dt_date t \<and> dt_date t \<le> e)"

definition filterByDateRange ::
  "stock_record list \<Rightarrow> date \<Rightarrow> date \<Rightarrow> error + stock_record list" where
  "filterByDateRange data s e = Inr (filter (in_range s e) data)"

text \<open>Rows used in the concrete evaluations below.\<close>

definition mk_ts :: "int \<Rightarrow> nat \<Rightarrow> nat \<Rightarrow> timestamp" where
  "mk_ts y m d = \<lparr>year = y, month = m, day = d, secs = 0\<rparr>"

definition mk_row :: "timestamp \<Rightarrow> string \<Rightarrow> rat \<Rightarrow> stock_record" where
  "mk_row t s p =
     \<lparr>rdate = Some t, symbol = s, ltp = Some p, pchng = Some 0, series_type = ''EQ'',
      market_cap = None, sector = None, industry = None, roe = None, roce = None,
      pe_ratio = None, book_value = None, dividend_yield = None, about = None,
      month_col = None\<rparr>"

section \<open>\<open>get_stock_highs\<close>\<close>

text \<open>
  \<open>sort_values("Today's Date")\<close>: ascending, rows whose date is NaT last
  (\<open>na_position='last'\<close>). Rows with equal timestamps keep their order here; the theorems
  below on the sorted series do not depend on how such ties are ordered.
\<close>

definition has_date :: "stock_record \<Rightarrow> bool" where
  "has_date r = (rdate r \<noteq> None)"

definition date_key :: "stock_record \<Rightarrow> int \<times> nat \<times> nat \<times> nat" where
  "date_key r = (case rdate r of None \<Rightarrow> (0, 0, 0, 0) | Some t \<Rightarrow> ts_key t)"

definition sort_values_date :: "stock_record list \<Rightarrow> stock_record list" where
  "sort_values_date df =
     sort_key date_key (filter has_date df) @ filter (\<lambda>r. \<not> has_date r) df"

text \<open>
  \<open>Series.cummax()\<close>: one pass that carries the maximum of the values seen so far; a NaN
  is skipped (it yields NaN at its own position and leaves the maximum as it is).
\<close>

fun cummax_from :: "'a::linorder option \<Rightarrow> 'a option list \<Rightarrow> 'a option list" where
  "cummax_from m [] = []"
| "cummax_from m (None # vs) = None # cummax_from m vs"
| "cummax_from m (Some v # vs) =
     (let m' = (case m of None \<Rightarrow> v | Some a \<Rightarrow> max a v)
      in Some m' # cummax_from (Some m') vs)"

definition cummax :: "'a::linorder option list \<Rightarrow> 'a option list" where
  "cummax vs = cummax_from None vs"

text \<open>Elementwise \<open>==\<close> of two columns: NaN equals nothing, itself included.\<close>

definition eq_cell :: "'a option \<Rightarrow> 'a option \<Rightarrow> bool" where
  "eq_cell a b = (case a of None \<Rightarrow> False | Some x \<Rightarrow> (case b of None \<Rightarrow> False | Some y \<Rightarrow> x = y))"

text \<open>
  Lines 40-49. Both returned frames carry the added column \<open>High_LTP\<close>: a row of them is
  the record paired with its \<open>High_LTP\<close> cell.
\<close>

definition get_stock_highs ::
  "stock_record list \<Rightarrow> string \<Rightarrow>
     (stock_record \<times> rat option) list \<times> (stock_record \<times> rat option) list" where
  "get_stock_highs data smb =
     (if smb \<noteq> [] then
        (let stock_data = filter (\<lambda>r. symbol r = smb) data in
         if stock_data \<noteq> [] then
           (let stock_data = sort_values_date stock_data;
                stock_data = zip stock_data (cummax (map ltp stock_data));
                high_dates = filter (\<lambda>(r, h). eq_cell (ltp r) h) stock_data
            in (high_dates, stock_data))
         else ([], []))
      else ([], []))"

text \<open>
  Position \<open>i\<close> of a series is a high point when its price is present and no present price
  at a position up to \<open>i\<close> exceeds it: the price equals the running maximum there.
\<close>

definition is_high :: "stock_record list \<Rightarrow> nat \<Rightarrow> bool" where
  "is_high rows i =
     (\<exists>p. ltp (rows ! i) = Some p \<and> (\<forall>j\<le>i. \<forall>q. ltp (rows ! j) = Some q \<longrightarrow> q \<le> p))"

definition prices_example :: "stock_record list" where
  "prices_example =
     [mk_row (mk_ts 2024 1 3) ''ABC'' 105,
      mk_row (mk_ts 2024 1 1) ''ABC'' 100,
      mk_row (mk_ts 2024 1 2) ''XYZ'' 500,
      mk_row (mk_ts 2024 1 5) ''ABC'' 95,
      mk_row (mk_ts 2024 1 2) ''ABC'' 90,
      mk_row (mk_ts 2024 1 4) ''ABC'' 105]"

section \<open>Presentation formatters\<close>

text \<open>
  The values the formatters receive are cells of the frame or the defaults of \<open>row.get\<close>:
  \<open>None\<close>, a float (NaN and the infinities included; an integer cell is the float of the
  same value), a \<open>str\<close>, or some other object \<open>Obj\<close> that is neither missing nor a number nor
  a string and supports neither \<open>>=\<close> with a float nor a float format (a dict, say).
  A finite float is the rational it denotes.
\<close>

datatype pyfloat = Fin rat | PInf | NInf | NaN

datatype pyval = NoneV | Flt pyfloat | Str string | Obj

datatype pyexn = ValueError | TypeError

text \<open>\<open>pd.isna\<close> on a scalar.\<close>

definition isna :: "pyval \<Rightarrow> bool" where
  "isna v = (v = NoneV \<or> v = Flt NaN)"

text \<open>The rupee sign U+20B9, as its three UTF-8 bytes.\<close>

definition rupee :: string where
  "rupee = [CHR 0xE2, CHR 0x82, CHR 0xB9]"

text \<open>\<open>s.replace(old, '')\<close> for a non-empty \<open>old\<close>: occurrences are removed left to right.\<close>

function remove_sub :: "string \<Rightarrow> string \<Rightarrow> string" where
  "remove_sub old s =
     (if s = [] then []
      else if old \<noteq> [] \<and> take (length old) s = old then remove_sub old (drop (length old) s)
      else hd s # remove_sub old (tl s))"
  by pat_completeness auto
termination
  by (relation "measure (\<lambda>(old, s). length s)") auto

declare remove_sub.simps [simp del]

text \<open>\<open>str.strip()\<close>, for the ASCII white space characters.\<close>

definition is_space :: "char \<Rightarrow> bool" where
  "is_space c = (c \<in> set [CHR '' '', CHR 0x09, CHR 0x0A, CHR 0x0B, CHR 0x0C, CHR 0x0D,
                           CHR 0x1C, CHR 0x1D, CHR 0x1E, CHR 0x1F])"

definition strip :: "string \<Rightarrow> string" where
  "strip s = rev (dropWhile is_space (rev (dropWhile is_space s)))"

text \<open>\<open>value.replace(rupee, '').replace(',', '').strip()\<close> (lines 65 and 267).\<close>

definition clean_number_text :: "string \<Rightarrow> string" where
  "clean_number_text s = strip (remove_sub '','' (remove_sub rupee s))"

text \<open>
  Rounding to the nearest integer, ties to the even one: the rounding of Python's float
  formatting and of \<open>numpy.round\<close>.
\<close>

definition rint :: "rat \<Rightarrow> int" where
  "rint x =
     (let f = \<lfloor>x\<rfloor>; d = x - of_int f
      in if d < 1 / 2 then f else if 1 / 2 < d then f + 1 else if even f then f else f + 1)"

text \<open>
  float64 arithmetic. A finite float is the rational it denotes. \<open>r64 x\<close> is the float
  nearest to the rational \<open>x\<close>, ties to the even significand: 53 significant bits at the
  binary exponent of \<open>x\<close>, and the fixed quantum \<open>2 powi (- 1074)\<close> below the normal range.
  An IEEE operation is the exact operation followed by this rounding; a result of
  magnitude \<open>2 ^ 1024\<close> or more overflows to an infinity.
\<close>

function bit_length :: "int \<Rightarrow> int" where
  "bit_length n = (if n \<le> 0 then 0 else 1 + bit_length (n div 2))"
  by pat_completeness auto
termination
  by (relation "measure nat") auto

declare bit_length.simps [simp del]

text \<open>The binary exponent of a positive rational \<open>y\<close>: \<open>2 powi e \<le> y < 2 powi (e + 1)\<close>.\<close>

definition exponent :: "rat \<Rightarrow> int" where
  "exponent y =
     (let (p, q) = quotient_of y; e = bit_length p - bit_length q
      in if 2 powi e \<le> y then e else e - 1)"

definition r64 :: "rat \<Rightarrow> rat" where
  "r64 x =
     (if x = 0 then 0
      else (let e = max (exponent \<bar>x\<bar>) (- 1022);
                q = 2 powi (e - 52);
                y = of_int (rint (\<bar>x\<bar> / q)) * q
            in if x < 0 then - y else y))"

definition fl64 :: "rat \<Rightarrow> pyfloat" where
  "fl64 x =
     (let y = r64 x
      in if y \<noteq> 0 \<and> 1024 \<le> exponent \<bar>y\<bar> then (if y < 0 then NInf else PInf) else Fin y)"

definition digit_char :: "nat \<Rightarrow> char" where
  "digit_char n = ''0123456789'' ! n"

text \<open>The decimal digits of a non-negative integer.\<close>

function dec :: "int \<Rightarrow> string" where
  "dec n =
     (if n < 10 then [digit_char (nat n)] else dec (n div 10) @ [digit_char (nat (n mod 10))])"
  by pat_completeness auto
termination
  by (relation "measure nat") auto

declare dec.simps [simp del]

text \<open>The thousands separator of the format \<open>,\<close>: a comma before every group of three digits.\<close>

function commas :: "string \<Rightarrow> string" where
  "commas s =
     (if length s \<le> 3 then s
      else commas (take (length s - 3) s) @ '','' @ drop (length s - 3) s)"
  by pat_completeness auto
termination
  by (relation "measure length") auto

declare commas.simps [simp del]

definition zfill :: "nat \<Rightarrow> string \<Rightarrow> string" where
  "zfill p s = replicate (p - length s) CHR ''0'' @ s"

text \<open>
  The format specifications \<open>.pf\<close> (\<open>grp = False\<close>) and \<open>,.pf\<close> (\<open>grp = True\<close>) of a float.
\<close>

definition fmt_fixed :: "nat \<Rightarrow> bool \<Rightarrow> pyfloat \<Rightarrow> string" where
  "fmt_fixed p grp v =
     (case v of
        PInf \<Rightarrow> ''inf''
      | NInf \<Rightarrow> ''-inf''
      | NaN \<Rightarrow> ''nan''
      | Fin x \<Rightarrow>
          (let n = rint (\<bar>x\<bar> * 10 ^ p);
               ip = dec (n div 10 ^ p);
               fp = zfill p (dec (n mod 10 ^ p))
           in (if x < 0 then ''-'' else [])
              @ (if grp then commas ip else ip)
              @ (if p = 0 then [] else ''.'' @ fp)))"

text \<open>
  \<open>num >= c\<close> and \<open>num / c\<close> for a float \<open>num\<close> and a positive float constant \<open>c\<close>. The
  comparison is exact; the quotient is rounded to float64.
\<close>

definition fge :: "pyfloat \<Rightarrow> rat \<Rightarrow> bool" where
  "fge v c = (case v of Fin x \<Rightarrow> c \<le> x | PInf \<Rightarrow> True | NInf \<Rightarrow> False | NaN \<Rightarrow> False)"

definition fdiv :: "pyfloat \<Rightarrow> rat \<Rightarrow> pyfloat" where
  "fdiv v c = (case v of Fin x \<Rightarrow> fl64 (x / c) | PInf \<Rightarrow> PInf | NInf \<Rightarrow> NInf | NaN \<Rightarrow> NaN)"

text \<open>
  \<open>if isinstance(value, str): value = float(...)\<close>. Python's \<open>float\<close> on a string is the
  parameter \<open>py_float\<close>; \<open>None\<close> is its \<open>ValueError\<close>.
\<close>

definition to_float :: "(string \<Rightarrow> pyfloat option) \<Rightarrow> pyval \<Rightarrow> pyexn + pyval" where
  "to_float py_float v =
     (case v of
        Str s \<Rightarrow> (case py_float (clean_number_text s) of
                    None \<Rightarrow> Inl ValueError
                  | Some f \<Rightarrow> Inr (Flt f))
      | _ \<Rightarrow> Inr v)"

text \<open>The body of the \<open>try\<close> of \<open>format_number\<close> (lines 264-276).\<close>

definition format_number_body :: "(string \<Rightarrow> pyfloat option) \<Rightarrow> pyval \<Rightarrow> pyexn + string" where
  "format_number_body py_float num =
     (if isna num then Inr ''N/A''
      else case to_float py_float num of
        Inl e \<Rightarrow> Inl e
      | Inr (Flt f) \<Rightarrow>
          if fge f 1000000000 then Inr (rupee @ fmt_fixed 2 False (fdiv f 1000000000) @ ''B'')
          else if fge f 10000000 then Inr (rupee @ fmt_fixed 2 False (fdiv f 10000000) @ ''Cr'')
          else if fge f 100000 then Inr (rupee @ fmt_fixed 2 False (fdiv f 100000) @ ''L'')
          else Inr (rupee @ fmt_fixed 2 True f)
      | Inr _ \<Rightarrow> Inl TypeError)"

text \<open>\<open>except (ValueError, TypeError): return "N/A"\<close>.\<close>

definition except_value_type :: "pyexn + string \<Rightarrow> pyexn + string" where
  "except_value_type r =
     (case r of Inl ValueError \<Rightarrow> Inr ''N/A'' | Inl TypeError \<Rightarrow> Inr ''N/A'' | Inr s \<Rightarrow> Inr s)"

definition format_number :: "(string \<Rightarrow> pyfloat option) \<Rightarrow> pyval \<Rightarrow> pyexn + string" where
  "format_number py_float num = except_value_type (format_number_body py_float num)"

text \<open>
  \<open>format_metric_value\<close> (lines 58-68). A negative precision makes the format
  specification invalid, a \<open>ValueError\<close>.
\<close>

definition format_metric_value_body ::
  "(string \<Rightarrow> pyfloat option) \<Rightarrow> pyval \<Rightarrow> int \<Rightarrow> pyexn + string" where
  "format_metric_value_body py_float v precision =
     (if isna v then Inr ''N/A''
      else case to_float py_float v of
        Inl e \<Rightarrow> Inl e
      | Inr (Flt f) \<Rightarrow>
          if precision < 0 then Inl ValueError
          else Inr (fmt_fixed (nat precision) False f)
      | Inr _ \<Rightarrow> Inl TypeError)"

definition format_metric_value ::
  "(string \<Rightarrow> pyfloat option) \<Rightarrow> pyval \<Rightarrow> int \<Rightarrow> pyexn + string" where
  "format_metric_value py_float v precision =
     except_value_type (format_metric_value_body py_float v precision)"

text \<open>
  A parser for the concrete evaluations: Python's \<open>float\<close> restricted to non-empty strings
  of ASCII digits, on which it returns the number they denote; every other string is
  rejected here.
\<close>

fun digits_value :: "string \<Rightarrow> int" where
  "digits_value s = foldl (\<lambda>n c. 10 * n + (of_char c - 48)) 0 s"

definition is_digit :: "char \<Rightarrow> bool" where
  "is_digit c = (c \<in> set ''0123456789'')"

definition float_of_digits :: "string \<Rightarrow> pyfloat option" where
  "float_of_digits s =
     (if s \<noteq> [] \<and> list_all is_digit s then Some (Fin (of_int (digits_value s))) else None)"

section \<open>Sector histogram\<close>

text \<open>
  \<open>Series.value_counts()\<close>: NaN cells are dropped, the distinct values are counted in the
  order of their first occurrence, and the table is then sorted by count, descending.
  The descending sort of pandas reverses the table, sorts it ascending and reverses the
  result. The sort is modelled as stable, which numpy's default sort is on tables of up
  to 16 rows: values of equal count then keep the order of their first occurrence. On
  longer tables the code does not determine the order of equal counts. No step compares
  the values themselves.
\<close>

definition present :: "'a option list \<Rightarrow> 'a list" where
  "present col = List.map_filter (\<lambda>c. c) col"

definition unique_in_order :: "'a list \<Rightarrow> 'a list" where
  "unique_in_order xs = rev (remdups (rev xs))"

definition sort_desc :: "('a \<Rightarrow> nat) \<Rightarrow> 'a list \<Rightarrow> 'a list" where
  "sort_desc f xs = rev (sort_key f (rev xs))"

definition value_counts :: "'a option list \<Rightarrow> ('a \<times> nat) list" where
  "value_counts col =
     (let vals = present col
      in sort_desc snd (map (\<lambda>k. (k, count_list vals k)) (unique_in_order vals)))"

text \<open>
  \<open>Series.round(2)\<close>, which numpy computes in float64 as \<open>rint(x * 100.0) / 100.0\<close>, and the
  column expression \<open>Count / Count.sum() * 100\<close>: the float quotient of the two integers,
  then the float product. Both stay far below the overflow threshold.
\<close>

definition round2 :: "rat \<Rightarrow> rat" where
  "round2 x = r64 (of_int (rint (r64 (x * 100))) / 100)"

definition percent_of :: "nat \<Rightarrow> nat \<Rightarrow> rat" where
  "percent_of c n = r64 (r64 (of_nat c / of_nat n) * 100)"

text \<open>
  Lines 569-571 and 719-721: the rows \<open>(Sector, Count, Percentage)\<close> of \<open>sector_counts\<close>.
\<close>

fun sector_row :: "nat \<Rightarrow> string \<times> nat \<Rightarrow> string \<times> nat \<times> rat" where
  "sector_row n (s, c) = (s, c, round2 (percent_of c n))"

definition sector_histogram :: "stock_record list \<Rightarrow> (string \<times> nat \<times> rat) list" where
  "sector_histogram filtered_data =
     (let sector_counts = value_counts (map sector filtered_data);
          total = sum_list (map snd sector_counts)
      in map (sector_row total) sector_counts)"

definition in_sector :: "string \<Rightarrow> stock_record \<Rightarrow> stock_record" where
  "in_sector s r = r\<lparr>sector := Some s\<rparr>"

definition sectors_example :: "stock_record list" where
  "sectors_example =
     [in_sector ''IT'' (mk_row (mk_ts 2024 1 1) ''AAA'' 10),
      in_sector ''Banks'' (mk_row (mk_ts 2024 1 1) ''BBB'' 20),
      in_sector ''Auto'' (mk_row (mk_ts 2024 1 1) ''CCC'' 30)]"

section \<open>\<open>get_latest_stock_data\<close>\<close>

text \<open>
  \<open>sort_values(["Today's Date", '%chng'], ascending=[False, False])\<close>: a stable sort on
  both keys, each descending with its missing values last. \<open>latest_first a b\<close> holds
  when row \<open>a\<close> does not belong after row \<open>b\<close>.
\<close>

datatype order3 = Lt | Eq | Gt

fun cmp_desc_nalast :: "'k::linorder option \<Rightarrow> 'k option \<Rightarrow> order3" where
  "cmp_desc_nalast None None = Eq"
| "cmp_desc_nalast None (Some y) = Gt"
| "cmp_desc_nalast (Some x) None = Lt"
| "cmp_desc_nalast (Some x) (Some y) = (if y < x then Lt else if x < y then Gt else Eq)"

definition latest_first :: "stock_record \<Rightarrow> stock_record \<Rightarrow> bool" where
  "latest_first a b =
     (case cmp_desc_nalast (map_option ts_key (rdate a)) (map_option ts_key (rdate b)) of
        Lt \<Rightarrow> True
      | Gt \<Rightarrow> False
      | Eq \<Rightarrow> cmp_desc_nalast (pchng a) (pchng b) \<noteq> Gt)"

fun insert_by :: "('a \<Rightarrow> 'a \<Rightarrow> bool) \<Rightarrow> 'a \<Rightarrow> 'a list \<Rightarrow> 'a list" where
  "insert_by le x [] = [x]"
| "insert_by le x (y # ys) = (if le x y then x # y # ys else y # insert_by le x ys)"

definition sort_by :: "('a \<Rightarrow> 'a \<Rightarrow> bool) \<Rightarrow> 'a list \<Rightarrow> 'a list" where
  "sort_by le xs = foldr (insert_by le) xs []"

text \<open>
  \<open>GroupBy.first()\<close> takes, for every column on its own, the first value of the group that
  is not null; a column without any value in the group is null. \<open>Series Type\<close> and \<open>Symbol\<close>
  have no nulls after \<open>load_data\<close>, so their first value is that of the first row.
\<close>

definition first_valid :: "('r \<Rightarrow> 'v option) \<Rightarrow> 'r list \<Rightarrow> 'v option" where
  "first_valid col g = (case present (map col g) of [] \<Rightarrow> None | v # _ \<Rightarrow> Some v)"

definition group_first :: "string \<Rightarrow> stock_record list \<Rightarrow> stock_record" where
  "group_first k g =
     \<lparr>rdate = first_valid rdate g, symbol = k, ltp = first_valid ltp g,
      pchng = first_valid pchng g,
      series_type = (case g of [] \<Rightarrow> [] | r # _ \<Rightarrow> series_type r),
      market_cap = first_valid market_cap g, sector = first_valid sector g,
      industry = first_valid industry g, roe = first_valid roe g, roce = first_valid roce g,
      pe_ratio = first_valid pe_ratio g, book_value = first_valid book_value g,
      dividend_yield = first_valid dividend_yield g, about = first_valid about g,
      month_col = first_valid month_col g\<rparr>"

text \<open>
  Lines 51-56. \<open>groupby('Symbol')\<close> orders the groups by ascending symbol. A row of the
  result is the record paired with its \<open>count\<close>; every symbol of the result is a key of
  \<open>stock_counts\<close>, so the lookup never misses.
\<close>

definition get_latest_stock_data :: "stock_record list \<Rightarrow> (stock_record \<times> nat) list" where
  "get_latest_stock_data filtered_data =
     (let stock_counts = value_counts (map (\<lambda>r. Some (symbol r)) filtered_data);
          ordered = sort_by latest_first filtered_data;
          latest_data =
            map (\<lambda>k. group_first k (filter (\<lambda>r. symbol r = k) ordered))
              (sort (remdups (map symbol ordered)));
          latest_data =
            map (\<lambda>r. (r, case map_of stock_counts (symbol r) of None \<Rightarrow> 0 | Some c \<Rightarrow> c))
              latest_data
      in sort_desc snd latest_data)"

text \<open>
  Two records of one symbol: the later one lacks the P/E ratio, the earlier one has it.
\<close>

definition abc_old :: stock_record where
  "abc_old = (mk_row (mk_ts 2024 1 1) ''ABC'' 100)\<lparr>pe_ratio := Some 12\<rparr>"

definition abc_new :: stock_record where
  "abc_new = mk_row (mk_ts 2024 1 5) ''ABC'' 110"

section \<open>The views of \<open>main\<close>\<close>








text \<open>
  A view takes the frame \<open>data\<close> and returns the frame as the view leaves it, with its
  output. An assignment into \<open>data\<close> is a change of the first component; every other
  statement builds a new frame from the old one. The selections of the sidebar widgets
  are inputs of a view; the option lists offered by the widgets are not modelled.
\<close>








section \<open>\<open>load_data\<close>\<close>

text \<open>
  The file that \<open>pd.read_csv\<close> reads is either unreadable or a table: a header and rows,
  a row giving the text of its cells by column name. An empty cell has no entry; pandas
  holds it as NaN. pandas is not part of the repository, so its parsers are parameters:
  \<open>to_numeric s\<close> is the number \<open>pd.to_numeric(errors='coerce')\<close> reads from the string \<open>s\<close>
  (\<open>None\<close> for NaN), and \<open>to_datetime s\<close> is the timestamp \<open>pd.to_datetime\<close> reads from
  \<open>s\<close> (\<open>None\<close> when it raises). A numeric cell is given by its text; \<open>to_numeric\<close> reads the
  same number from that text as from the \<open>str\<close> of the float that \<open>read_csv\<close> made of it.
\<close>

type_synonym raw_row = "(string \<times> string) list"

datatype csv_source = Unreadable | Csv "string list" "raw_row list"

definition cell :: "raw_row \<Rightarrow> string \<Rightarrow> string option" where
  "cell row col = map_of row col"

text \<open>\<open>.astype(str)\<close>: a NaN cell becomes the string \<open>nan\<close>.\<close>

definition astype_str :: "string option \<Rightarrow> string" where
  "astype_str c = (case c of None \<Rightarrow> ''nan'' | Some s \<Rightarrow> s)"

text \<open>\<open>.str.upper()\<close>, for the ASCII letters.\<close>

definition upper_char :: "char \<Rightarrow> char" where
  "upper_char c = (if CHR ''a'' \<le> c \<and> c \<le> CHR ''z'' then char_of (of_char c - (32 :: nat)) else c)"

definition upper :: "string \<Rightarrow> string" where
  "upper s = map upper_char s"

text \<open>
  \<open>.str.extract(r'(\d+(?:\.\d+)?)', expand=False)\<close>: the first run of ASCII digits, with the
  point and the digits that follow it when there are some; NaN when the string has no
  digit.
\<close>

definition extract_number :: "string \<Rightarrow> string option" where
  "extract_number s =
     (let t = dropWhile (\<lambda>c. \<not> is_digit c) s
      in if t = [] then None
         else (let ip = takeWhile is_digit t; rest = dropWhile is_digit t
               in case rest of
                    [] \<Rightarrow> Some ip
                  | c # r \<Rightarrow>
                      if c = CHR ''.'' \<and> takeWhile is_digit r \<noteq> []
                      then Some (ip @ ''.'' @ takeWhile is_digit r)
                      else Some ip))"

definition date_column :: string where
  "date_column = ''Today's Date''"

text \<open>The columns that \<open>load_data\<close> indexes without a guard; a missing one is a \<open>KeyError\<close>.\<close>

definition indexed_columns :: "string list" where
  "indexed_columns = [date_column, ''%chng'', ''Market Cap'', ''Symbol'', ''Series Type'']"

text \<open>Lines 20-24: a column of \<open>numeric_columns\<close> is cleaned only when the frame has it.\<close>

definition clean_metric ::
  "(string \<Rightarrow> rat option) \<Rightarrow> string list \<Rightarrow> raw_row \<Rightarrow> string \<Rightarrow> rat option" where
  "clean_metric to_numeric header row col =
     (if col \<in> set header
      then to_numeric (remove_sub rupee (remove_sub ''%'' (astype_str (cell row col))))
      else None)"

text \<open>
  The record that lines 13-33 make of one row. \<open>LTP\<close>, \<open>Sector\<close>, \<open>Industry\<close> and \<open>About\<close> are
  not touched by \<open>load_data\<close>: they stay as \<open>read_csv\<close> read them, \<open>LTP\<close> as a number.
\<close>

definition normalize_row ::
  "(string \<Rightarrow> rat option) \<Rightarrow> (string \<Rightarrow> timestamp option) \<Rightarrow> string list \<Rightarrow> raw_row \<Rightarrow>
     stock_record" where
  "normalize_row to_numeric to_datetime header row =
     \<lparr>rdate = (case cell row date_column of None \<Rightarrow> None | Some s \<Rightarrow> to_datetime s),
      symbol = upper (strip (astype_str (cell row ''Symbol''))),
      ltp = (case cell row ''LTP'' of None \<Rightarrow> None | Some s \<Rightarrow> to_numeric s),
      pchng = to_numeric (strip (remove_sub ''%'' (astype_str (cell row ''%chng'')))),
      series_type = (case cell row ''Series Type'' of None \<Rightarrow> ''N/A'' | Some s \<Rightarrow> s),
      market_cap =
        (case extract_number
                (remove_sub '','' (remove_sub rupee (astype_str (cell row ''Market Cap'')))) of
           None \<Rightarrow> None
         | Some t \<Rightarrow> to_numeric t),
      sector = cell row ''Sector'',
      industry = cell row ''Industry'',
      roe = clean_metric to_numeric header row ''ROE'',
      roce = clean_metric to_numeric header row ''ROCE'',
      pe_ratio = clean_metric to_numeric header row ''P/E Ratio'',
      book_value = clean_metric to_numeric header row ''Book Value'',
      dividend_yield = clean_metric to_numeric header row ''Dividend Yield'',
      about = cell row ''About'',
      month_col = None\<rparr>"

text \<open>A date cell on which \<open>pd.to_datetime\<close> raises; an empty cell becomes NaT instead.\<close>

definition bad_date :: "(string \<Rightarrow> timestamp option) \<Rightarrow> raw_row \<Rightarrow> bool" where
  "bad_date to_datetime row =
     (case cell row date_column of None \<Rightarrow> False | Some s \<Rightarrow> to_datetime s = None)"

text \<open>
  Lines 6-38. Every exception of the body reaches the one handler, which reports the
  error and returns an empty frame: that outcome is \<open>Inl DataLoadError\<close>.
\<close>

definition load_data ::
  "(string \<Rightarrow> rat option) \<Rightarrow> (string \<Rightarrow> timestamp option) \<Rightarrow> csv_source \<Rightarrow>
     error + stock_record list" where
  "load_data to_numeric to_datetime file =
     (case file of
        Unreadable \<Rightarrow> Inl DataLoadError
      | Csv header rows \<Rightarrow>
          if \<not> list_all (\<lambda>c. c \<in> set header) indexed_columns then Inl DataLoadError
          else if list_ex (bad_date to_datetime) rows then Inl DataLoadError
          else Inr (map (normalize_row to_numeric to_datetime header) rows))"

text \<open>
  Parsers for the concrete evaluations: the parts of \<open>pd.to_numeric\<close> and \<open>pd.to_datetime\<close>
  on plain decimals \<open>digits[.digits]\<close> and on dates \<open>YYYY-MM-DD\<close>, where they are the number
  and the day written. Every other string is rejected here; the strings rejected in the
  evaluations below are rejected by pandas too.
\<close>

definition numeric_of_decimal :: "string \<Rightarrow> rat option" where
  "numeric_of_decimal s =
     (let ip = takeWhile is_digit s; rest = dropWhile is_digit s
      in if ip = [] then None
         else if rest = [] then Some (of_int (digits_value ip))
         else if hd rest = CHR ''.'' \<and> tl rest \<noteq> [] \<and> list_all is_digit (tl rest)
         then Some (of_int (digits_value ip)
                    + of_int (digits_value (tl rest)) / 10 ^ length (tl rest))
         else None)"

definition datetime_of_iso :: "string \<Rightarrow> timestamp option" where
  "datetime_of_iso s =
     (if length s = 10 \<and> s ! 4 = CHR ''-'' \<and> s ! 7 = CHR ''-''
         \<and> list_all is_digit (take 4 s @ take 2 (drop 5 s) @ drop 8 s)
      then Some (mk_ts (digits_value (take 4 s)) (nat (digits_value (take 2 (drop 5 s))))
                   (nat (digits_value (drop 8 s))))
      else None)"

definition csv_header :: "string list" where
  "csv_header =
     [date_column, ''Symbol'', ''LTP'', ''%chng'', ''Series Type'', ''Market Cap'', ''Sector'',
      ''Industry'']"

definition good_row :: raw_row where
  "good_row =
     [(date_column, ''2024-01-05''), (''Symbol'', '' abc ''), (''LTP'', ''110.5''),
      (''%chng'', ''1.25%''), (''Market Cap'', rupee @ ''1,200 Cr''), (''Sector'', ''IT'')]"

definition odd_row :: raw_row where
  "odd_row =
     [(date_column, ''2024-01-06''), (''Symbol'', ''xyz''), (''LTP'', ''90''),
      (''%chng'', ''up 3''), (''Series Type'', ''EQ''), (''Market Cap'', ''unknown'')]"

definition undated_row :: raw_row where
  "undated_row =
     [(date_column, ''not a date''), (''Symbol'', ''abc''), (''LTP'', ''110.5''),
      (''%chng'', ''1.25%''), (''Series Type'', ''EQ''), (''Market Cap'', ''1200'')]"

section \<open>\<open>get_stock_highs\<close> on a text \<open>LTP\<close> column\<close>

text \<open>
  \<open>load_data\<close> never converts \<open>LTP\<close>. When every cell of the column is a plain number,
  \<open>read_csv\<close> makes it a float column, which is the field \<open>ltp\<close> of a record. When some
  cell is not (a price written with a currency sign or a thousands separator), the
  column holds strings: every cell keeps its text, and an empty cell is NaN. A row of
  such a frame is the record, whose field \<open>ltp\<close> is unused, with the text of its \<open>LTP\<close> cell.
\<close>

type_synonym text_row = "stock_record \<times> string option"

text \<open>
  \<open>cummax\<close> of a column of strings compares them as Python does, by code points. A NaN
  is replaced by the float \<open>-inf\<close> for the pass, and comparing it with a string raises
  \<open>TypeError\<close>.
\<close>

definition cummax_text :: "string option list \<Rightarrow> pyexn + string option list" where
  "cummax_text vs =
     (if list_ex (\<lambda>v. v = None) vs \<and> list_ex (\<lambda>v. v \<noteq> None) vs then Inl TypeError
      else Inr (cummax vs))"

definition sort_values_date_text :: "text_row list \<Rightarrow> text_row list" where
  "sort_values_date_text df =
     sort_key (\<lambda>x. date_key (fst x)) (filter (\<lambda>x. has_date (fst x)) df)
     @ filter (\<lambda>x. \<not> has_date (fst x)) df"

text \<open>Lines 40-49 on such a frame.\<close>

definition get_stock_highs_text ::
  "text_row list \<Rightarrow> string \<Rightarrow>
     pyexn + (text_row \<times> string option) list \<times> (text_row \<times> string option) list" where
  "get_stock_highs_text data smb =
     (if smb \<noteq> [] then
        (let stock_data = filter (\<lambda>x. symbol (fst x) = smb) data in
         if stock_data \<noteq> [] then
           (let stock_data = sort_values_date_text stock_data
            in case cummax_text (map snd stock_data) of
                 Inl e \<Rightarrow> Inl e
               | Inr high_ltp \<Rightarrow>
                   (let stock_data = zip stock_data high_ltp;
                        high_dates = filter (\<lambda>(x, h). eq_cell (snd x) h) stock_data
                    in Inr (high_dates, stock_data)))
         else Inr ([], []))
      else Inr ([], []))"

definition text_priced :: "timestamp \<Rightarrow> string \<Rightarrow> string \<Rightarrow> text_row" where
  "text_priced t s price = ((mk_row t s 0)\<lparr>ltp := None\<rparr>, Some price)"

definition text_prices_example :: "text_row list" where
  "text_prices_example =
     [text_priced (mk_ts 2024 1 1) ''ABC'' ''1,234.5'',
      text_priced (mk_ts 2024 1 2) ''ABC'' ''90'']"

text \<open>The \<open>LTP\<close> texts of the rows of a frame.\<close>

definition ltp_texts :: "(text_row \<times> string option) list \<Rightarrow> string option list" where
  "ltp_texts frame = map (\<lambda>x. snd (fst x)) frame"

section \<open>Theorems\<close>

text \<open>
  C8. Filtering by an exact date is idempotent: filtering the subset that
  \<open>filterByExactDate\<close> produced by the same date again returns that subset. A row is in the
  subset exactly when it is in the dataset and the calendar date of its timestamp is the
  selected date, whatever its time of day.
\<close>

theorem filterByExactDate_idempotent:
  "filterByExactDate (filterByExactDate data d) d = filterByExactDate data d
   \<and> set (filterByExactDate data d) =
       {r \<in> set data. \<exists>t. rdate r = Some t \<and> (year t, month t, day t) = d}"
proof
  show "filterByExactDate (filterByExactDate data d) d = filterByExactDate data d"
    by (simp add: filterByExactDate_def)
  show "set (filterByExactDate data d) =
          {r \<in> set data. \<exists>t. rdate r = Some t \<and> (year t, month t, day t) = d}"
    by (auto simp: filterByExactDate_def on_date_def dt_date_def split: option.splits)
qed

text \<open>
  C1 (as the code has it). When the start date lies after the end date,
  \<open>filterByDateRange\<close> returns the empty subset and signals no error.
\<close>

theorem filterByDateRange_reversed_empty:
  "e < s \<Longrightarrow> filterByDateRange data s e = Inr []"
  by (auto simp: filterByDateRange_def in_range_def filter_empty_conv split: option.splits)

theorem filterByDateRange_reversed_empty_witness:
  "((2024, 1, 1) :: date) < (2024, 1, 5)
   \<and> filterByDateRange [mk_row (mk_ts 2024 1 3) ''ABC'' 100] (2024, 1, 5) (2024, 1, 1) = Inr []"
proof -
  have h: "((2024, 1, 1) :: date) < (2024, 1, 5)" by simp
  show ?thesis using h filterByDateRange_reversed_empty [OF h] by simp
qed

text \<open>
  C1 (as stated) fails: for a reversed range over a one-row dataset the result is the
  empty subset, not \<open>InvalidRangeError\<close>.
\<close>

theorem filterByDateRange_no_error:
  "filterByDateRange [mk_row (mk_ts 2024 1 3) ''ABC'' 100] (2024, 1, 5) (2024, 1, 1)
     \<noteq> Inl InvalidRangeError"
  by (simp add: filterByDateRange_def)

subsection \<open>\<open>get_stock_highs\<close>\<close>

lemma length_cummax_from: "length (cummax_from m vs) = length vs"
  by (induction m vs rule: cummax_from.induct) (auto simp: Let_def)

lemma all_le_Suc: "(\<forall>j\<le>Suc k. P j) \<longleftrightarrow> P 0 \<and> (\<forall>j\<le>k. P (Suc j))"
  by (metis Suc_le_mono le0 not0_implies_Suc)

lemma eq_cell_cummax_from:
  "i < length vs \<Longrightarrow>
   eq_cell (vs ! i) (cummax_from m vs ! i) \<longleftrightarrow>
     (\<exists>p. vs ! i = Some p \<and> (\<forall>a. m = Some a \<longrightarrow> a \<le> p)
          \<and> (\<forall>j\<le>i. \<forall>q. vs ! j = Some q \<longrightarrow> q \<le> p))"
proof (induction m vs arbitrary: i rule: cummax_from.induct)
  case (1 m)
  then show ?case by simp
next
  case (2 m vs)
  show ?case
  proof (cases i)
    case 0
    then show ?thesis by (simp add: eq_cell_def)
  next
    case (Suc k)
    with 2 show ?thesis by (simp add: all_le_Suc)
  qed
next
  case (3 m v vs)
  show ?case
  proof (cases i)
    case 0
    then show ?thesis
      by (auto simp: eq_cell_def Let_def max_def split: option.splits if_splits)
  next
    case (Suc k)
    with 3 show ?thesis
      by (cases m) (auto simp: all_le_Suc Let_def)
  qed
qed

lemma zip_as_map_nth:
  "length ys = length xs \<Longrightarrow> zip xs ys = map (\<lambda>i. (xs ! i, ys ! i)) [0..<length xs]"
  by (rule nth_equalityI) auto

lemma filter_zip_nth:
  assumes "length ys = length xs"
  shows "map fst (filter P (zip xs ys)) =
           map ((!) xs) (filter (\<lambda>i. P (xs ! i, ys ! i)) [0..<length xs])"
  by (simp add: zip_as_map_nth[OF assms] filter_map comp_def)

lemma high_points_of_series:
  "map fst (filter (\<lambda>(r, h). eq_cell (ltp r) h) (zip rows (cummax (map ltp rows)))) =
     map ((!) rows) (filter (is_high rows) [0..<length rows])"
proof -
  have len: "length (cummax (map ltp rows)) = length rows"
    by (simp add: cummax_def length_cummax_from)
  have "filter (\<lambda>i. eq_cell (ltp (rows ! i)) (cummax (map ltp rows) ! i)) [0..<length rows]
          = filter (is_high rows) [0..<length rows]"
  proof (rule filter_cong[OF refl])
    fix i assume "i \<in> set [0..<length rows]"
    then have i: "i < length (map ltp rows)" by simp
    show "eq_cell (ltp (rows ! i)) (cummax (map ltp rows) ! i) = is_high rows i"
      using eq_cell_cummax_from[OF i, of None] i
      by (auto simp: cummax_def is_high_def)
  qed
  then show ?thesis
    using filter_zip_nth[OF len, of "\<lambda>(r, h). eq_cell (ltp r) h"] by simp
qed

lemma high_prices_sorted:
  "sorted (List.map_filter ltp (map ((!) rows) (filter (is_high rows) [0..<length rows])))"
proof -
  let ?idx = "filter (is_high rows) [0..<length rows]"
  let ?g = "\<lambda>i. the (ltp (rows ! i))"
  have all: "\<forall>i\<in>set ?idx. ltp (rows ! i) \<noteq> None"
    by (auto simp: is_high_def)
  have "filter (\<lambda>i. ltp (rows ! i) \<noteq> None) ?idx = ?idx"
    unfolding filter_id_conv using all by blast
  then have eq: "List.map_filter ltp (map ((!) rows) ?idx) = map ?g ?idx"
    by (simp add: List.map_filter_def filter_map comp_def)
  have "sorted_wrt (<) ?idx"
    by (rule sorted_wrt_filter) simp
  then have "sorted_wrt (\<lambda>i j. ?g i \<le> ?g j) ?idx"
  proof (rule sorted_wrt_mono_rel[rotated])
    fix i j assume "i \<in> set ?idx" "j \<in> set ?idx" "i < j"
    then have "i \<le> j" "is_high rows i" "is_high rows j" by auto
    then show "?g i \<le> ?g j"
      unfolding is_high_def by (metis option.sel)
  qed
  then show ?thesis
    by (simp add: eq sorted_map)
qed



lemma get_stock_highs_unfold:
  assumes "smb \<noteq> []"
  shows "get_stock_highs data smb =
           (let sd = sort_values_date (filter (\<lambda>r. symbol r = smb) data);
                fr = zip sd (cummax (map ltp sd))
            in (filter (\<lambda>(r, h). eq_cell (ltp r) h) fr, fr))"
proof (cases "filter (\<lambda>r. symbol r = smb) data = []")
  case True
  then show ?thesis
    using assms by (simp add: get_stock_highs_def sort_values_date_def cummax_def)
next
  case False
  then show ?thesis
    using assms by (simp add: get_stock_highs_def Let_def)
qed

lemma map_fst_zip_cummax: "map fst (zip sd (cummax (map ltp sd))) = sd"
  by (simp add: cummax_def length_cummax_from)

lemma mset_sort_values_date: "mset (sort_values_date df) = mset df"
  by (simp add: sort_values_date_def)

lemma sort_values_date_shape:
  "filter has_date (sort_values_date df) = sort_key date_key (filter has_date df)
   \<and> filter (\<lambda>r. \<not> has_date r) (sort_values_date df) = filter (\<lambda>r. \<not> has_date r) df"
  by (simp add: sort_values_date_def filter_sort)

text \<open>
  C2 (for a dataset whose \<open>LTP\<close> column is numeric). For a non-empty symbol,
  \<open>get_stock_highs\<close> restricts the dataset to the symbol (the series holds exactly the
  symbol's records, each as often as the dataset does), orders it ascending by date with
  undated rows last, and the high points are, in series order, exactly the positions
  whose price is present and equals the running maximum up to that position. The prices
  of the high points, read in that order, are non-decreasing. For the empty symbol both
  frames are empty, whatever the dataset holds. For the chronological prices 100, 90,
  105, 105, 95 the high points have the prices 100, 105, 105.
\<close>

theorem get_stock_highs_trajectory:
  assumes "smb \<noteq> []"
  shows "(let rows = map fst (snd (get_stock_highs data smb));
              highs = map fst (fst (get_stock_highs data smb))
          in mset rows = filter_mset (\<lambda>r. symbol r = smb) (mset data)
             \<and> sorted (map date_key (filter has_date rows))
             \<and> rows = filter has_date rows @ filter (\<lambda>r. \<not> has_date r) rows
             \<and> highs = map ((!) rows) (filter (is_high rows) [0..<length rows])
             \<and> sorted (List.map_filter ltp highs))
         \<and> get_stock_highs data [] = ([], [])
         \<and> map ltp (map fst (snd (get_stock_highs prices_example ''ABC'')))
             = [Some 100, Some 90, Some 105, Some 105, Some 95]
         \<and> map ltp (map fst (fst (get_stock_highs prices_example ''ABC'')))
             = [Some 100, Some 105, Some 105]"
proof -
  let ?sd = "sort_values_date (filter (\<lambda>r. symbol r = smb) data)"
  have rows: "map fst (snd (get_stock_highs data smb)) = ?sd"
    by (simp add: get_stock_highs_unfold[OF assms] Let_def map_fst_zip_cummax)
  have highs: "map fst (fst (get_stock_highs data smb)) =
                 map ((!) ?sd) (filter (is_high ?sd) [0..<length ?sd])"
    by (simp add: get_stock_highs_unfold[OF assms] Let_def high_points_of_series)
  have a: "mset ?sd = filter_mset (\<lambda>r. symbol r = smb) (mset data)"
    by (simp add: mset_sort_values_date)
  have b: "sorted (map date_key (filter has_date ?sd))"
    by (simp add: sort_values_date_shape)
  have c: "?sd = filter has_date ?sd @ filter (\<lambda>r. \<not> has_date r) ?sd"
    unfolding sort_values_date_shape[THEN conjunct1] sort_values_date_shape[THEN conjunct2]
    by (simp add: sort_values_date_def)
  have d: "sorted (List.map_filter ltp (map ((!) ?sd) (filter (is_high ?sd) [0..<length ?sd])))"
    by (rule high_prices_sorted)
  have e1: "map ltp (map fst (snd (get_stock_highs prices_example ''ABC'')))
             = [Some 100, Some 90, Some 105, Some 105, Some 95]"
    by code_simp
  have e2: "map ltp (map fst (fst (get_stock_highs prices_example ''ABC'')))
             = [Some 100, Some 105, Some 105]"
    by code_simp
  have g: "get_stock_highs data [] = ([], [])"
    by (simp add: get_stock_highs_def)
  show ?thesis
    unfolding Let_def rows highs using a b c d g e1 e2 by blast
qed

theorem get_stock_highs_trajectory_witness:
  "''ABC'' \<noteq> []
   \<and> sorted (List.map_filter ltp (map fst (fst (get_stock_highs prices_example ''ABC''))))"
proof -
  have h: "''ABC'' \<noteq> []" by simp
  show ?thesis
    using h get_stock_highs_trajectory[OF h, of prices_example] unfolding Let_def by blast
qed

text \<open>
  C2 (as stated, for every dataset and symbol) fails twice. At the empty symbol, which
  the guard \<open>if symbol:\<close> excludes: a dataset whose only record has the empty symbol and
  the price 100 gives no series and no high point, although that record is the whole
  restriction and its price is the running maximum. And on a text \<open>LTP\<close> column: with the
  prices "1,234.5" and then "90" both records are high points, because the running
  maximum compares the texts, although the second price is below the first.
\<close>

theorem get_stock_highs_guard_and_text:
  "symbol (mk_row (mk_ts 2024 1 1) [] 100) = []
   \<and> ltp (mk_row (mk_ts 2024 1 1) [] 100) = Some 100
   \<and> get_stock_highs [mk_row (mk_ts 2024 1 1) [] 100] [] = ([], [])
   \<and> map_sum id (\<lambda>r. ltp_texts (fst r)) (get_stock_highs_text text_prices_example ''ABC'')
       = Inr [Some ''1,234.5'', Some ''90'']
   \<and> numeric_of_decimal (clean_number_text ''1,234.5'') = Some (2469 / 2)
   \<and> numeric_of_decimal (clean_number_text ''90'') = Some 90
   \<and> (90 :: rat) < 2469 / 2"
proof -
  have a: "symbol (mk_row (mk_ts 2024 1 1) [] 100) = []
   \<and> ltp (mk_row (mk_ts 2024 1 1) [] 100) = Some 100
   \<and> get_stock_highs [mk_row (mk_ts 2024 1 1) [] 100] [] = ([], [])"
    by (simp add: get_stock_highs_def mk_row_def)
  have b: "map_sum id (\<lambda>r. ltp_texts (fst r)) (get_stock_highs_text text_prices_example ''ABC'')
       = Inr [Some ''1,234.5'', Some ''90'']"
    by code_simp
  have c: "numeric_of_decimal (clean_number_text ''1,234.5'') = Some (2469 / 2)"
    "numeric_of_decimal (clean_number_text ''90'') = Some 90"
    by code_simp+
  show ?thesis using a b c by simp
qed



subsection \<open>Formatters\<close>

lemma rint_nearest: "\<bar>of_int (rint x) - x\<bar> \<le> 1 / 2"
proof -
  have "of_int \<lfloor>x\<rfloor> \<le> x" "x < of_int \<lfloor>x\<rfloor> + 1" by linarith+
  then show ?thesis
    by (auto simp: rint_def Let_def)
qed

lemma rint_nonneg: "0 \<le> x \<Longrightarrow> 0 \<le> rint x"
  by (auto simp: rint_def Let_def)

lemma bit_length_bounds:
  "0 < n \<Longrightarrow> 1 \<le> bit_length n \<and> 2 ^ nat (bit_length n - 1) \<le> n \<and> n < 2 ^ nat (bit_length n)"
proof (induction n rule: bit_length.induct)
  case (1 n)
  show ?case
  proof (cases "n = 1")
    case True
    have "bit_length 1 = 1"
      by (subst bit_length.simps, subst bit_length.simps) simp
    then show ?thesis using True by simp
  next
    case False
    with "1.prems" have m: "0 < n div 2" by simp
    let ?b = "bit_length (n div 2)"
    from "1.IH" "1.prems" m
    have b: "1 \<le> ?b" and lo: "2 ^ nat (?b - 1) \<le> n div 2" and hi: "n div 2 < 2 ^ nat ?b"
      by simp_all
    have bl: "bit_length n = 1 + ?b"
      using "1.prems" by (subst bit_length.simps) simp
    have e1: "(2 :: int) ^ nat ?b = 2 * 2 ^ nat (?b - 1)"
      using b by (metis Suc_nat_eq_nat_zadd1 add.commute diff_add_cancel diff_ge_0_iff_ge power_Suc)
    have e2: "(2 :: int) ^ nat (1 + ?b) = 2 * 2 ^ nat ?b"
      using b by (simp add: nat_add_distrib)
    have "2 * (n div 2) \<le> n" "n \<le> 2 * (n div 2) + 1" by simp_all
    with lo hi have "2 ^ nat ?b \<le> n" "n < 2 ^ nat (1 + ?b)"
      unfolding e1 e2 by linarith+
    then show ?thesis using b bl by simp
  qed
qed

lemma bit_length_powi:
  assumes "0 < n"
  shows "(2 :: rat) powi (bit_length n - 1) \<le> of_int n" and "(of_int n :: rat) < 2 powi (bit_length n)"
proof -
  from bit_length_bounds[OF assms]
  have b: "1 \<le> bit_length n" and lo: "2 ^ nat (bit_length n - 1) \<le> n"
    and hi: "n < 2 ^ nat (bit_length n)" by simp_all
  have "(of_int (2 ^ nat (bit_length n - 1)) :: rat) \<le> of_int n"
    using lo by (simp only: of_int_le_iff)
  then show "(2 :: rat) powi (bit_length n - 1) \<le> of_int n"
    using b by (simp add: power_int_def)
  have "(of_int n :: rat) < of_int (2 ^ nat (bit_length n))"
    using hi by (simp only: of_int_less_iff)
  then show "(of_int n :: rat) < 2 powi (bit_length n)"
    using b by (simp add: power_int_def)
qed

lemma exponent_bounds:
  assumes "0 < y"
  shows "2 powi (exponent y) \<le> y" and "y < 2 powi (exponent y + 1)"
proof -
  obtain p q where pq: "quotient_of y = (p, q)" by (cases "quotient_of y")
  then have q: "0 < q" and y: "y = of_int p / of_int q"
    by (simp_all add: quotient_of_denom_pos quotient_of_div)
  with assms have p: "0 < p" by (simp add: zero_less_divide_iff)
  let ?e = "bit_length p - bit_length q"
  have plo: "(2 :: rat) powi (bit_length p - 1) \<le> of_int p"
    and phi: "(of_int p :: rat) < 2 powi (bit_length p)"
    using bit_length_powi[OF p] by simp_all
  have qlo: "(2 :: rat) powi (bit_length q - 1) \<le> of_int q"
    and qhi: "(of_int q :: rat) < 2 powi (bit_length q)"
    using bit_length_powi[OF q] by simp_all
  have "(2 :: rat) powi (?e - 1) = 2 powi (bit_length p - 1) / 2 powi (bit_length q)"
    by (simp add: power_int_diff)
  also have "\<dots> \<le> of_int p / of_int q"
    using plo qhi q p by (intro frac_le) simp_all
  finally have lo: "2 powi (?e - 1) \<le> y" by (simp add: y)
  have "of_int p / of_int q < (2 :: rat) powi (bit_length p) / 2 powi (bit_length q - 1)"
    using phi qlo q p by (intro frac_less) simp_all
  also have "\<dots> = 2 powi (?e + 1)"
    by (simp add: power_int_diff power_int_add)
  finally have hi: "y < 2 powi (?e + 1)" by (simp add: y)
  have ex: "exponent y = (if 2 powi ?e \<le> y then ?e else ?e - 1)"
    by (simp add: exponent_def pq)
  show "2 powi (exponent y) \<le> y"
    using lo by (simp add: ex)
  show "y < 2 powi (exponent y + 1)"
    using hi by (auto simp: ex not_le)
qed

lemma exponent_le:
  assumes "0 < y" and "y \<le> 2 powi k"
  shows "exponent y \<le> k"
proof -
  have "(2 :: rat) powi (exponent y) \<le> 2 powi k"
    using exponent_bounds(1)[OF assms(1)] assms(2) by linarith
  then show ?thesis
    using power_int_strict_increasing[of k "exponent y" "2 :: rat"] by force
qed

lemma r64_error:
  assumes "\<bar>x\<bar> \<le> 2 powi k" and "- 1022 \<le> k"
  shows "\<bar>r64 x - x\<bar> \<le> 2 powi (k - 53)"
proof (cases "x = 0")
  case True
  then show ?thesis by (simp add: r64_def)
next
  case False
  define e where "e = max (exponent \<bar>x\<bar>) (- 1022)"
  define q :: rat where "q = 2 powi (e - 52)"
  define m where "m = rint (\<bar>x\<bar> / q)"
  have qpos: "0 < q" by (simp add: q_def)
  have "exponent \<bar>x\<bar> \<le> k"
    using False assms(1) by (intro exponent_le) simp_all
  then have ek: "e \<le> k" using assms(2) by (simp add: e_def)
  have "\<bar>of_int m - \<bar>x\<bar> / q\<bar> \<le> 1 / 2"
    unfolding m_def by (rule rint_nearest)
  then have "\<bar>of_int m - \<bar>x\<bar> / q\<bar> * q \<le> 1 / 2 * q"
    using qpos by (intro mult_right_mono) simp_all
  moreover have "\<bar>of_int m - \<bar>x\<bar> / q\<bar> * q = \<bar>of_int m * q - \<bar>x\<bar>\<bar>"
  proof -
    have "\<bar>of_int m - \<bar>x\<bar> / q\<bar> * q = \<bar>(of_int m - \<bar>x\<bar> / q) * q\<bar>"
      using qpos by (simp add: abs_mult)
    also have "(of_int m - \<bar>x\<bar> / q) * q = of_int m * q - \<bar>x\<bar>"
      using qpos by (simp add: left_diff_distrib)
    finally show ?thesis .
  qed
  ultimately have near: "\<bar>of_int m * q - \<bar>x\<bar>\<bar> \<le> q / 2" by simp
  have "q / 2 = 2 powi (e - 53)"
    by (simp add: q_def power_int_diff)
  also have "\<dots> \<le> 2 powi (k - 53)"
    using ek by (intro power_int_increasing) simp_all
  finally have qk: "q / 2 \<le> 2 powi (k - 53)" .
  have r: "r64 x = (if x < 0 then - (of_int m * q) else of_int m * q)"
    using False by (simp add: r64_def Let_def e_def q_def m_def)
  have "\<bar>r64 x - x\<bar> = \<bar>of_int m * q - \<bar>x\<bar>\<bar>"
  proof (cases "x < 0")
    case True
    then have "r64 x - x = - (of_int m * q - \<bar>x\<bar>)" by (simp add: r)
    then show ?thesis by (simp only: abs_minus)
  next
    case False
    then show ?thesis by (simp add: r)
  qed
  then show ?thesis using near qk by linarith
qed


lemma length_dec_lt_100: "m < 100 \<Longrightarrow> length (dec m) \<le> 2"
  by (subst dec.simps, subst dec.simps) auto

lemma hundredths:
  fixes y :: rat
  defines "n \<equiv> rint (\<bar>y\<bar> * 100)"
  shows "\<bar>of_int n / 100 - \<bar>y\<bar>\<bar> \<le> 1 / 200" and "length (zfill 2 (dec (n mod 100))) = 2"
    and "0 \<le> n"
proof -
  show "0 \<le> n" unfolding n_def by (rule rint_nonneg) simp
  have "\<bar>of_int (rint (\<bar>y\<bar> * 100)) - \<bar>y\<bar> * 100\<bar> \<le> 1 / 2" by (rule rint_nearest)
  then show "\<bar>of_int n / 100 - \<bar>y\<bar>\<bar> \<le> 1 / 200" by (simp add: n_def field_simps abs_le_iff)
  have "length (dec (n mod 100)) \<le> 2" by (rule length_dec_lt_100) simp
  then show "length (zfill 2 (dec (n mod 100))) = 2" by (simp add: zfill_def)
qed

lemma format_number_Fin:
  "format_number pf (Flt (Fin x)) =
     Inr (rupee @
       (if 1000000000 \<le> x then fmt_fixed 2 False (fl64 (x / 1000000000)) @ ''B''
        else if 10000000 \<le> x then fmt_fixed 2 False (fl64 (x / 10000000)) @ ''Cr''
        else if 100000 \<le> x then fmt_fixed 2 False (fl64 (x / 100000)) @ ''L''
        else fmt_fixed 2 True (Fin x)))"
  by (simp add: format_number_def format_number_body_def isna_def to_float_def fge_def fdiv_def
      except_value_type_def)

text \<open>
  C6. \<open>format_number\<close> returns "N/A" for a missing value (\<open>None\<close> or NaN) and otherwise
  applies the largest applicable scale: from 1e9 the value divided by 1e9 with the suffix
  B, else from 1e7 divided by 1e7 with Cr, else from 1e5 divided by 1e5 with L, else the
  value itself with thousands separators; always behind the rupee sign and with two
  decimals. The quotient is the float64 quotient. A two-decimal rendering is the sign, the
  digits of the integer part, a point and exactly two digits, of the hundredth nearest to
  the float rendered. 150000000 gives 15.00Cr and 1200000000 gives 1.20B; 1015000000,
  whose float quotient lies just below 1.015, gives 1.01B.
\<close>

theorem format_number_scales:
  "format_number pf NoneV = Inr ''N/A''
   \<and> format_number pf (Flt NaN) = Inr ''N/A''
   \<and> format_number pf (Flt (Fin x)) =
       Inr (rupee @
         (if 1000000000 \<le> x then fmt_fixed 2 False (fl64 (x / 1000000000)) @ ''B''
          else if 10000000 \<le> x then fmt_fixed 2 False (fl64 (x / 10000000)) @ ''Cr''
          else if 100000 \<le> x then fmt_fixed 2 False (fl64 (x / 100000)) @ ''L''
          else fmt_fixed 2 True (Fin x)))
   \<and> fmt_fixed 2 grp (Fin y) =
       (if y < 0 then ''-'' else [])
       @ (if grp then commas (dec (rint (\<bar>y\<bar> * 100) div 100))
          else dec (rint (\<bar>y\<bar> * 100) div 100))
       @ ''.'' @ zfill 2 (dec (rint (\<bar>y\<bar> * 100) mod 100))
   \<and> length (zfill 2 (dec (rint (\<bar>y\<bar> * 100) mod 100))) = 2
   \<and> \<bar>of_int (rint (\<bar>y\<bar> * 100)) / 100 - \<bar>y\<bar>\<bar> \<le> 1 / 200
   \<and> 0 \<le> rint (\<bar>y\<bar> * 100)
   \<and> format_number pf (Flt (Fin 150000000)) = Inr (rupee @ ''15.00Cr'')
   \<and> format_number pf (Flt (Fin 1200000000)) = Inr (rupee @ ''1.20B'')
   \<and> format_number pf (Flt (Fin 123456)) = Inr (rupee @ ''1.23L'')
   \<and> format_number pf (Flt (Fin (24691 / 2))) = Inr (rupee @ ''12,345.50'')
   \<and> format_number pf (Flt (Fin 1015000000)) = Inr (rupee @ ''1.01B'')"
proof -
  have a: "format_number pf NoneV = Inr ''N/A''" "format_number pf (Flt NaN) = Inr ''N/A''"
    by (simp_all add: format_number_def format_number_body_def isna_def except_value_type_def)
  have b: "fmt_fixed 2 grp (Fin y) =
       (if y < 0 then ''-'' else [])
       @ (if grp then commas (dec (rint (\<bar>y\<bar> * 100) div 100))
          else dec (rint (\<bar>y\<bar> * 100) div 100))
       @ ''.'' @ zfill 2 (dec (rint (\<bar>y\<bar> * 100) mod 100))"
    by (simp add: fmt_fixed_def Let_def)
  have e1: "format_number pf (Flt (Fin 150000000)) = Inr (rupee @ ''15.00Cr'')" by code_simp
  have e2: "format_number pf (Flt (Fin 1200000000)) = Inr (rupee @ ''1.20B'')" by code_simp
  have e3: "format_number pf (Flt (Fin 123456)) = Inr (rupee @ ''1.23L'')" by code_simp
  have e4: "format_number pf (Flt (Fin (24691 / 2))) = Inr (rupee @ ''12,345.50'')" by code_simp
  have e5: "format_number pf (Flt (Fin 1015000000)) = Inr (rupee @ ''1.01B'')" by code_simp
  show ?thesis
    using a b hundredths[of y] format_number_Fin[of pf x] e1 e2 e3 e4 e5 by blast
qed

lemma except_value_type_total: "\<exists>s. except_value_type r = Inr s"
  by (cases r) (auto simp: except_value_type_def split: pyexn.splits)

text \<open>
  C7. \<open>format_number\<close> and \<open>format_metric_value\<close> return a string for every input and never
  raise: a missing value, a non-numeric object and a string that \<open>float\<close> rejects all give
  "N/A"; a string that \<open>float\<close> accepts is formatted as the number it denotes.
\<close>

theorem formatters_total:
  "(\<exists>s. format_number pf v = Inr s)
   \<and> (\<exists>s. format_metric_value pf v prec = Inr s)
   \<and> format_number pf Obj = Inr ''N/A''
   \<and> format_metric_value pf Obj prec = Inr ''N/A''
   \<and> format_metric_value pf NoneV prec = Inr ''N/A''
   \<and> format_metric_value pf (Flt NaN) prec = Inr ''N/A''
   \<and> (pf (clean_number_text t) = None \<longrightarrow>
        format_number pf (Str t) = Inr ''N/A'' \<and> format_metric_value pf (Str t) prec = Inr ''N/A'')
   \<and> (pf (clean_number_text t) = Some (Fin x) \<longrightarrow>
        format_number pf (Str t) = format_number pf (Flt (Fin x))
        \<and> format_metric_value pf (Str t) prec = format_metric_value pf (Flt (Fin x)) prec)"
proof -
  have 1: "\<exists>s. format_number pf v = Inr s"
    unfolding format_number_def by (rule except_value_type_total)
  have 2: "\<exists>s. format_metric_value pf v prec = Inr s"
    unfolding format_metric_value_def by (rule except_value_type_total)
  have 3: "format_number pf Obj = Inr ''N/A''" "format_metric_value pf Obj prec = Inr ''N/A''"
    "format_metric_value pf NoneV prec = Inr ''N/A''"
    "format_metric_value pf (Flt NaN) prec = Inr ''N/A''"
    by (simp_all add: format_number_def format_number_body_def format_metric_value_def
        format_metric_value_body_def isna_def to_float_def except_value_type_def)
  have 4: "pf (clean_number_text t) = None \<longrightarrow>
        format_number pf (Str t) = Inr ''N/A'' \<and> format_metric_value pf (Str t) prec = Inr ''N/A''"
    by (simp add: format_number_def format_number_body_def format_metric_value_def
        format_metric_value_body_def isna_def to_float_def except_value_type_def)
  have 5: "pf (clean_number_text t) = Some (Fin x) \<longrightarrow>
        format_number pf (Str t) = format_number pf (Flt (Fin x))
        \<and> format_metric_value pf (Str t) prec = format_metric_value pf (Flt (Fin x)) prec"
    by (simp add: format_number_def format_number_body_def format_metric_value_def
        format_metric_value_body_def isna_def to_float_def except_value_type_def)
  show ?thesis using 1 2 3 4 5 by blast
qed

theorem formatters_total_witness:
  "float_of_digits (clean_number_text ''n/a'') = None
   \<and> format_number float_of_digits (Str ''n/a'') = Inr ''N/A''
   \<and> format_metric_value float_of_digits (Str ''n/a'') 2 = Inr ''N/A''
   \<and> float_of_digits (clean_number_text '' 1,250 '') = Some (Fin 1250)
   \<and> format_number float_of_digits (Str '' 1,250 '') = Inr (rupee @ ''1,250.00'')
   \<and> format_metric_value float_of_digits (Str '' 1,250 '') 2 = Inr ''1250.00''"
proof -
  have h1: "float_of_digits (clean_number_text ''n/a'') = None" by code_simp
  have h2: "float_of_digits (clean_number_text '' 1,250 '') = Some (Fin 1250)" by code_simp
  have e1: "format_number float_of_digits (Flt (Fin 1250)) = Inr (rupee @ ''1,250.00'')" by code_simp
  have e2: "format_metric_value float_of_digits (Flt (Fin 1250)) 2 = Inr ''1250.00''" by code_simp
  show ?thesis
    using h1 h2 e1 e2
      formatters_total[of float_of_digits NoneV 2 "''n/a''" 0]
      formatters_total[of float_of_digits NoneV 2 "'' 1,250 ''" 1250]
    by simp
qed

subsection \<open>Sector histogram\<close>

lemma set_present: "set (present col) = {v. Some v \<in> set col}"
  by (induction col) (auto simp: present_def List.map_filter_simps split: option.splits)

lemma count_list_present:
  "count_list (present col) v = length (filter (\<lambda>c. c = Some v) col)"
  by (induction col) (auto simp: present_def List.map_filter_def)

lemma length_present: "length (present col) = length (filter (\<lambda>c. c \<noteq> None) col)"
  by (induction col) (auto simp: present_def List.map_filter_def)

lemma unique_in_order_props:
  "distinct (unique_in_order xs)" "set (unique_in_order xs) = set xs"
  by (simp_all add: unique_in_order_def)

lemma mset_sort_desc: "mset (sort_desc f xs) = mset xs"
  by (simp add: sort_desc_def)

lemma set_sort_desc: "set (sort_desc f xs) = set xs"
  by (simp add: sort_desc_def)

lemma distinct_sort_desc: "distinct (map g (sort_desc f xs)) = distinct (map g xs)"
proof -
  have "mset (map g (sort_desc f xs)) = mset (map g xs)"
    by (simp add: mset_sort_desc)
  then show ?thesis by (rule mset_eq_imp_distinct_iff)
qed

lemma sorted_rev_sort_desc: "sorted (rev (map f (sort_desc f xs)))"
  by (simp add: sort_desc_def rev_map[symmetric])

lemma filter_sort_desc:
  "filter (\<lambda>y. f y = k) (sort_desc f xs) = filter (\<lambda>y. f y = k) xs"
  by (simp add: sort_desc_def rev_filter[symmetric] sort_key_stable)

lemma sum_list_count_unique:
  "sum_list (map (count_list xs) (unique_in_order xs)) = length xs"
proof -
  have "sum_list (map (count_list xs) (unique_in_order xs)) = sum (count_list xs) (set xs)"
    using sum_list_distinct_conv_sum_set[OF unique_in_order_props(1), of "count_list xs" xs]
    by (simp add: unique_in_order_props)
  also have "\<dots> = length xs"
    by (rule sum_count_set) simp_all
  finally show ?thesis .
qed


lemma sum_list_close:
  fixes f g :: "'a \<Rightarrow> rat"
  assumes "\<forall>x\<in>set xs. \<bar>f x - g x\<bar> \<le> e"
  shows "\<bar>sum_list (map f xs) - sum_list (map g xs)\<bar> \<le> of_nat (length xs) * e"
  using assms
proof (induction xs)
  case Nil
  then show ?case by simp
next
  case (Cons a xs)
  then have "\<bar>f a - g a\<bar> \<le> e"
    and "\<bar>sum_list (map f xs) - sum_list (map g xs)\<bar> \<le> of_nat (length xs) * e"
    by simp_all
  then show ?case by (simp add: algebra_simps abs_le_iff)
qed

lemma sum_list_shares:
  fixes t :: rat
  shows "sum_list (map (\<lambda>c. of_nat c / t * 100) cs) = of_nat (sum_list cs) / t * 100"
  by (induction cs) (simp_all add: add_divide_distrib distrib_right)

lemma sum_list_sort_desc:
  fixes g :: "'a \<Rightarrow> nat"
  shows "sum_list (map g (sort_desc f xs)) = sum_list (map g xs)"
  by (metis mset_sort_desc mset_map sum_mset_sum_list)

lemma value_counts_mset:
  "mset (value_counts col) =
     mset (map (\<lambda>k. (k, count_list (present col) k)) (unique_in_order (present col)))"
  by (simp add: value_counts_def Let_def mset_sort_desc)

lemma value_counts_set:
  "set (value_counts col) = (\<lambda>k. (k, count_list (present col) k)) ` set (present col)"
  by (simp add: value_counts_def Let_def set_sort_desc unique_in_order_props)

lemma value_counts_total: "sum_list (map snd (value_counts col)) = length (present col)"
  by (simp add: value_counts_def Let_def sum_list_sort_desc comp_def sum_list_count_unique)

lemma value_counts_distinct: "distinct (map fst (value_counts col))"
  by (simp add: value_counts_def Let_def distinct_sort_desc comp_def unique_in_order_props)

lemma value_counts_sorted: "sorted (rev (map snd (value_counts col)))"
  by (simp add: value_counts_def Let_def sorted_rev_sort_desc)

lemma value_counts_ties:
  "map fst (filter (\<lambda>y. snd y = k) (value_counts col)) =
     filter (\<lambda>s. count_list (present col) s = k) (unique_in_order (present col))"
  by (simp add: value_counts_def Let_def filter_sort_desc filter_map comp_def)

lemma count_sector:
  "count_list (present (map sector rows)) s = length (filter (\<lambda>r. sector r = Some s) rows)"
  by (simp add: count_list_present filter_map comp_def)

lemma set_present_sector:
  "set (present (map sector rows)) = {s. \<exists>r. r \<in> set rows \<and> sector r = Some s}"
  by (induction rows) (auto simp: present_def List.map_filter_simps split: option.splits)

lemma length_present_sector:
  "length (present (map sector rows)) = length (filter (\<lambda>r. sector r \<noteq> None) rows)"
  by (simp add: length_present filter_map comp_def)

lemma pow_consts:
  "(2 :: rat) powi (- 53) = 1 / 9007199254740992"
  "(2 :: rat) powi (- 46) = 1 / 70368744177664"
  "(2 :: rat) powi (- 39) = 1 / 549755813888"
  "(2 :: rat) powi 0 = 1" "(2 :: rat) powi 7 = 128" "(2 :: rat) powi 14 = 16384"
  by (simp_all add: power_int_def power_one_over)

lemma percent_near:
  fixes x :: rat
  assumes "0 \<le> x" and "x \<le> 1"
  shows "\<bar>round2 (r64 (r64 x * 100)) - x * 100\<bar> \<le> 1 / 200 + 1 / 1000000000000"
proof -
  define v where "v = r64 x"
  define w where "w = r64 (v * 100)"
  define z where "z = r64 (w * 100)"
  define m where "m = rint z"
  define p where "p = r64 (of_int m / 100)"
  have 1: "\<bar>v - x\<bar> \<le> 1 / 9007199254740992"
    using r64_error[of x 0] assms unfolding v_def by (simp add: pow_consts)
  have "\<bar>v * 100\<bar> \<le> 2 powi 7"
    using 1 assms unfolding pow_consts by linarith
  then have 2: "\<bar>w - v * 100\<bar> \<le> 1 / 70368744177664"
    using r64_error[of "v * 100" 7] unfolding w_def by (simp add: pow_consts)
  have "\<bar>w * 100\<bar> \<le> 2 powi 14"
    using 1 2 assms unfolding pow_consts by linarith
  then have 3: "\<bar>z - w * 100\<bar> \<le> 1 / 549755813888"
    using r64_error[of "w * 100" 14] unfolding z_def by (simp add: pow_consts)
  have 4: "\<bar>of_int m - z\<bar> \<le> 1 / 2"
    unfolding m_def by (rule rint_nearest)
  have "\<bar>of_int m / 100\<bar> \<le> (2 powi 7 :: rat)"
    using 1 2 3 4 assms unfolding pow_consts by linarith
  then have 5: "\<bar>p - of_int m / 100\<bar> \<le> 1 / 70368744177664"
    using r64_error[of "of_int m / 100" 7] unfolding p_def by (simp add: pow_consts)
  have "round2 (r64 (r64 x * 100)) = p"
    by (simp add: round2_def p_def m_def z_def w_def v_def)
  then show ?thesis
    using 1 2 3 4 5 by linarith
qed


lemma length_filter_mono:
  assumes "\<And>x. P x \<Longrightarrow> Q x"
  shows "length (filter P xs) \<le> length (filter Q xs)"
  using assms by (induction xs) auto

lemma sector_row_alt:
  "sector_row n = (\<lambda>y. (fst y, snd y, round2 (percent_of (snd y) n)))"
  by (auto simp: fun_eq_iff)

lemma sector_histogram_unfold:
  "sector_histogram rows =
     map (\<lambda>y. (fst y, snd y,
                round2 (percent_of (snd y) (length (filter (\<lambda>r. sector r \<noteq> None) rows)))))
       (value_counts (map sector rows))"
  by (simp add: sector_histogram_def Let_def value_counts_total length_present_sector
      sector_row_alt)

lemma value_counts_sector_count:
  assumes "(s, c) \<in> set (value_counts (map sector rows))"
  shows "c = length (filter (\<lambda>r. sector r = Some s) rows)"
    and "c \<le> length (filter (\<lambda>r. sector r \<noteq> None) rows)"
proof -
  show c: "c = length (filter (\<lambda>r. sector r = Some s) rows)"
    using assms by (auto simp: value_counts_set count_sector)
  show "c \<le> length (filter (\<lambda>r. sector r \<noteq> None) rows)"
    unfolding c by (rule length_filter_mono) simp
qed

lemma percent_of_near:
  assumes "c \<le> n"
  shows "\<bar>round2 (percent_of c n) - of_nat c / of_nat n * 100\<bar> \<le> 1 / 200 + 1 / 1000000000000"
proof -
  have "0 \<le> (of_nat c / of_nat n :: rat)" by simp
  moreover have "(of_nat c / of_nat n :: rat) \<le> 1"
    using assms by (auto simp: divide_le_eq_1)
  ultimately show ?thesis
    unfolding percent_of_def by (rule percent_near)
qed

lemma sector_histogram_sum:
  assumes "filter (\<lambda>r. sector r \<noteq> None) rows \<noteq> []"
  shows "\<bar>sum_list (map (snd \<circ> snd) (sector_histogram rows)) - 100\<bar>
           \<le> of_nat (length (sector_histogram rows)) * (1 / 200 + 1 / 1000000000000)"
proof -
  let ?n = "length (filter (\<lambda>r. sector r \<noteq> None) rows)"
  let ?vc = "value_counts (map sector rows)"
  let ?q = "\<lambda>y :: string \<times> nat. of_nat (snd y) / of_nat ?n * (100 :: rat)"
  let ?p = "\<lambda>y :: string \<times> nat. round2 (percent_of (snd y) ?n)"
  have n: "(of_nat ?n :: rat) \<noteq> 0" using assms by simp
  have pcts: "map (snd \<circ> snd) (sector_histogram rows) = map ?p ?vc"
    by (simp add: sector_histogram_unfold comp_def split_def)
  have "sum_list (map ?q ?vc) = sum_list (map (\<lambda>c. of_nat c / of_nat ?n * (100 :: rat)) (map snd ?vc))"
    by (simp add: comp_def)
  also have "\<dots> = of_nat (sum_list (map snd ?vc)) / of_nat ?n * 100"
    by (rule sum_list_shares)
  also have "\<dots> = 100"
    using n by (simp add: value_counts_total length_present_sector)
  finally have exact: "sum_list (map ?q ?vc) = 100" .
  have close: "\<bar>sum_list (map ?p ?vc) - sum_list (map ?q ?vc)\<bar>
          \<le> of_nat (length ?vc) * (1 / 200 + 1 / 1000000000000)"
  proof (rule sum_list_close, rule ballI)
    fix y assume "y \<in> set ?vc"
    then have "(fst y, snd y) \<in> set ?vc" by simp
    then have "snd y \<le> ?n" by (rule value_counts_sector_count(2))
    then show "\<bar>?p y - ?q y\<bar> \<le> 1 / 200 + 1 / 1000000000000"
      by (rule percent_of_near)
  qed
  have len: "length (sector_histogram rows) = length ?vc"
    by (simp add: sector_histogram_unfold)
  show ?thesis
    unfolding pcts len using close unfolding exact .
qed

text \<open>
  C4 (as the code has it). The sector histogram has one row per sector that occurs in the
  subset, with the number of records of that sector, ordered by descending count (the
  order among sectors of equal count is left to the sort and nothing is stated about it).
  Each row carries the float64 percentage \<open>count / total * 100\<close> rounded by \<open>round(2)\<close>, where
  \<open>total\<close> is the number of records that have a sector; it lies within 0.005 (and a float
  error below 1e-12) of the exact percentage. When some record has a sector, the
  percentages sum to 100 up to that much per row; when none has, the histogram is empty.
  For 23 records of 160 the float product lies just below 14.375 and the percentage is
  the float of 14.37.
\<close>

theorem sector_histogram_table:
  "(let h = sector_histogram rows;
        n = length (filter (\<lambda>r. sector r \<noteq> None) rows)
    in distinct (map fst h)
       \<and> set (map fst h) = {s. \<exists>r. r \<in> set rows \<and> sector r = Some s}
       \<and> (\<forall>s c p. (s, c, p) \<in> set h \<longrightarrow>
            c = length (filter (\<lambda>r. sector r = Some s) rows)
            \<and> p = round2 (percent_of c n)
            \<and> \<bar>p - of_nat c / of_nat n * 100\<bar> \<le> 1 / 200 + 1 / 1000000000000)
       \<and> sorted (rev (map (fst \<circ> snd) h))
       \<and> (n \<noteq> 0 \<longrightarrow>
            \<bar>sum_list (map (snd \<circ> snd) h) - 100\<bar>
              \<le> of_nat (length h) * (1 / 200 + 1 / 1000000000000))
       \<and> (n = 0 \<longrightarrow> h = []))
   \<and> round2 (percent_of 23 160) = r64 (1437 / 100)
   \<and> \<bar>r64 (1437 / 100) - 1437 / 100\<bar> \<le> 1 / 1000000000000"
proof -
  let ?h = "sector_histogram rows"
  let ?n = "length (filter (\<lambda>r. sector r \<noteq> None) rows)"
  let ?vc = "value_counts (map sector rows)"
  have fsts: "map fst ?h = map fst ?vc"
    by (simp add: sector_histogram_unfold comp_def split_def)
  have cnts: "map (fst \<circ> snd) ?h = map snd ?vc"
    by (simp add: sector_histogram_unfold comp_def split_def)
  have 1: "distinct (map fst ?h)"
    by (simp add: fsts value_counts_distinct)
  have "fst ` set ?vc = set (present (map sector rows))"
    by (simp add: value_counts_set image_image)
  then have "set (map fst ?vc) = set (present (map sector rows))"
    by simp
  then have 2: "set (map fst ?h) = {s. \<exists>r. r \<in> set rows \<and> sector r = Some s}"
    unfolding fsts by (simp add: set_present_sector)
  have 3: "\<forall>s c p. (s, c, p) \<in> set ?h \<longrightarrow>
            c = length (filter (\<lambda>r. sector r = Some s) rows)
            \<and> p = round2 (percent_of c ?n)
            \<and> \<bar>p - of_nat c / of_nat ?n * 100\<bar> \<le> 1 / 200 + 1 / 1000000000000"
  proof (intro allI impI)
    fix s c p assume "(s, c, p) \<in> set ?h"
    then have vc: "(s, c) \<in> set ?vc" and p: "p = round2 (percent_of c ?n)"
      by (auto simp: sector_histogram_unfold)
    from value_counts_sector_count[OF vc] percent_of_near[of c ?n] p
    show "c = length (filter (\<lambda>r. sector r = Some s) rows)
            \<and> p = round2 (percent_of c ?n)
            \<and> \<bar>p - of_nat c / of_nat ?n * 100\<bar> \<le> 1 / 200 + 1 / 1000000000000"
      by simp
  qed
  have 4: "sorted (rev (map (fst \<circ> snd) ?h))"
    by (simp only: cnts value_counts_sorted)
  have 6: "?n \<noteq> 0 \<longrightarrow>
            \<bar>sum_list (map (snd \<circ> snd) ?h) - 100\<bar>
              \<le> of_nat (length ?h) * (1 / 200 + 1 / 1000000000000)"
    using sector_histogram_sum[of rows] by simp
  have "?n = 0 \<longrightarrow> present (map sector rows) = []"
    by (metis length_present_sector length_0_conv)
  then have "?n = 0 \<longrightarrow> ?vc = []"
    by (auto simp: value_counts_def unique_in_order_def sort_desc_def)
  then have 7: "?n = 0 \<longrightarrow> ?h = []"
    by (simp add: sector_histogram_unfold)
  have 8: "round2 (percent_of 23 160) = r64 (1437 / 100)" by code_simp
  have 9: "\<bar>r64 (1437 / 100) - 1437 / 100\<bar> \<le> 1 / 1000000000000" by code_simp
  show ?thesis
    unfolding Let_def using 1 2 3 4 6 7 8 9 by blast
qed

theorem sector_histogram_table_witness:
  "length (filter (\<lambda>r. sector r \<noteq> None) sectors_example) \<noteq> 0
   \<and> map fst (sector_histogram sectors_example) = [''IT'', ''Banks'', ''Auto'']
   \<and> map (snd \<circ> snd) (sector_histogram sectors_example)
       = [r64 (3333 / 100), r64 (3333 / 100), r64 (3333 / 100)]
   \<and> \<bar>sum_list (map (snd \<circ> snd) (sector_histogram sectors_example)) - 100\<bar>
        \<le> of_nat (length (sector_histogram sectors_example)) * (1 / 200 + 1 / 1000000000000)"
proof -
  have h: "length (filter (\<lambda>r. sector r \<noteq> None) sectors_example) \<noteq> 0"
    by (simp add: sectors_example_def in_sector_def mk_row_def)
  have k: "map fst (sector_histogram sectors_example) = [''IT'', ''Banks'', ''Auto'']"
    by code_simp
  have v: "map (snd \<circ> snd) (sector_histogram sectors_example)
       = [r64 (3333 / 100), r64 (3333 / 100), r64 (3333 / 100)]"
    by code_simp
  show ?thesis
    using h k v sector_histogram_table[of sectors_example] unfolding Let_def by blast
qed

text \<open>
  C4 (as stated) fails twice. Two sectors of equal count come out in the order of their
  first occurrence, "B" before "A", not by ascending name. And a non-empty subset none of
  whose records has a sector gives an empty histogram, whose percentages sum to 0.
\<close>

theorem sector_histogram_ties_not_by_name:
  "sector_histogram
     [in_sector ''B'' (mk_row (mk_ts 2024 1 1) ''X'' 1),
      in_sector ''A'' (mk_row (mk_ts 2024 1 1) ''Y'' 1)]
     = [(''B'', 1, 50), (''A'', 1, 50)]
   \<and> ''A'' < ''B''
   \<and> sector_histogram [mk_row (mk_ts 2024 1 1) ''X'' 1] = []
   \<and> sum_list (map (snd \<circ> snd) (sector_histogram [mk_row (mk_ts 2024 1 1) ''X'' 1])) = 0"
proof -
  have a: "sector_histogram
     [in_sector ''B'' (mk_row (mk_ts 2024 1 1) ''X'' 1),
      in_sector ''A'' (mk_row (mk_ts 2024 1 1) ''Y'' 1)]
     = [(''B'', 1, 50), (''A'', 1, 50)]"
    by code_simp
  have b: "''A'' < ''B''" by code_simp
  have c: "sector_histogram [mk_row (mk_ts 2024 1 1) ''X'' 1] = []" by code_simp
  show ?thesis using a b c by simp
qed

subsection \<open>\<open>get_latest_stock_data\<close>\<close>

text \<open>
  C3 at a symbol with the records of 2024-01-01 (price 100, P/E 12) and 2024-01-05
  (price 110, no P/E): the one row returned has the date and the price of the later
  record and the P/E ratio of the earlier one, with the count 2. It is neither of the
  two records, so it is not the record with the maximum date.
\<close>

theorem get_latest_stock_data_mixes_records:
  "get_latest_stock_data [abc_old, abc_new] = [(abc_new\<lparr>pe_ratio := Some 12\<rparr>, 2)]
   \<and> abc_new\<lparr>pe_ratio := Some 12\<rparr> \<noteq> abc_new
   \<and> abc_new\<lparr>pe_ratio := Some 12\<rparr> \<noteq> abc_old
   \<and> rdate abc_old = Some (mk_ts 2024 1 1) \<and> rdate abc_new = Some (mk_ts 2024 1 5)
   \<and> pe_ratio abc_new = None"
proof -
  have a: "get_latest_stock_data [abc_old, abc_new] = [(abc_new\<lparr>pe_ratio := Some 12\<rparr>, 2)]"
    by code_simp
  have b: "abc_new\<lparr>pe_ratio := Some 12\<rparr> \<noteq> abc_new" "abc_new\<lparr>pe_ratio := Some 12\<rparr> \<noteq> abc_old"
    "rdate abc_old = Some (mk_ts 2024 1 1)" "rdate abc_new = Some (mk_ts 2024 1 5)"
    "pe_ratio abc_new = None"
    by (simp_all add: abc_new_def abc_old_def mk_row_def mk_ts_def)
  show ?thesis using a b by simp
qed

subsection \<open>Views and the dataset\<close>





subsection \<open>\<open>load_data\<close>\<close>

lemma load_data_fails_iff:
  "load_data tn td src = Inl DataLoadError \<longleftrightarrow>
     src = Unreadable
     \<or> (\<exists>header rows. src = Csv header rows
          \<and> (\<not> set indexed_columns \<subseteq> set header \<or> (\<exists>row. row \<in> set rows \<and> bad_date td row)))"
  by (cases src) (auto simp: load_data_def list_all_iff list_ex_iff)

lemma load_data_result:
  "load_data tn td src = Inl DataLoadError
   \<or> (\<exists>header rows. src = Csv header rows
        \<and> load_data tn td src = Inr (map (normalize_row tn td header) rows))"
  by (cases src) (auto simp: load_data_def)

text \<open>
  C5 (as the code has it). \<open>load_data\<close> fails exactly when the file is unreadable, when a
  column it indexes is absent, or when a date cell does not parse; whether it fails does
  not depend on the numeric parser at all. When it does not fail, it returns one record
  per row, in the order of the rows, each made of its own row; a numeric field whose text
  does not parse is missing in that record.
\<close>

theorem load_data_keeps_rows:
  "(load_data tn td src = Inl DataLoadError \<longleftrightarrow>
      src = Unreadable
      \<or> (\<exists>header rows. src = Csv header rows
           \<and> (\<not> set indexed_columns \<subseteq> set header
               \<or> (\<exists>row. row \<in> set rows \<and> bad_date td row))))
   \<and> (load_data tn td src = Inl DataLoadError \<longleftrightarrow>
        load_data (\<lambda>s. None) td src = Inl DataLoadError)
   \<and> (load_data tn td src \<noteq> Inl DataLoadError \<longrightarrow>
        (\<exists>header rows recs. src = Csv header rows \<and> load_data tn td src = Inr recs
           \<and> length recs = length rows
           \<and> (\<forall>i. i < length rows \<longrightarrow> recs ! i = normalize_row tn td header (rows ! i))))
   \<and> pchng (normalize_row tn td header row)
        = tn (strip (remove_sub ''%'' (astype_str (cell row ''%chng''))))
   \<and> (extract_number (remove_sub '','' (remove_sub rupee (astype_str (cell row ''Market Cap''))))
         = None \<longrightarrow> market_cap (normalize_row tn td header row) = None)
   \<and> (col \<in> set header \<and> tn (remove_sub rupee (remove_sub ''%'' (astype_str (cell row col)))) = None
        \<longrightarrow> clean_metric tn header row col = None)"
proof -
  have 1: "load_data tn td src = Inl DataLoadError \<longleftrightarrow>
      src = Unreadable
      \<or> (\<exists>header rows. src = Csv header rows
           \<and> (\<not> set indexed_columns \<subseteq> set header
               \<or> (\<exists>row. row \<in> set rows \<and> bad_date td row)))"
    by (rule load_data_fails_iff)
  have 2: "load_data tn td src = Inl DataLoadError \<longleftrightarrow>
        load_data (\<lambda>s. None) td src = Inl DataLoadError"
    unfolding load_data_fails_iff ..
  have 3: "load_data tn td src \<noteq> Inl DataLoadError \<longrightarrow>
        (\<exists>header rows recs. src = Csv header rows \<and> load_data tn td src = Inr recs
           \<and> length recs = length rows
           \<and> (\<forall>i. i < length rows \<longrightarrow> recs ! i = normalize_row tn td header (rows ! i)))"
    using load_data_result[of tn td src] by auto
  have 4: "pchng (normalize_row tn td header row)
        = tn (strip (remove_sub ''%'' (astype_str (cell row ''%chng''))))"
    by (simp add: normalize_row_def)
  have 5: "extract_number (remove_sub '','' (remove_sub rupee (astype_str (cell row ''Market Cap''))))
         = None \<longrightarrow> market_cap (normalize_row tn td header row) = None"
    by (simp add: normalize_row_def)
  have 6: "col \<in> set header \<and> tn (remove_sub rupee (remove_sub ''%'' (astype_str (cell row col)))) = None
        \<longrightarrow> clean_metric tn header row col = None"
    by (simp add: clean_metric_def)
  show ?thesis using 1 2 3 4 5 6 by blast
qed

theorem load_data_keeps_rows_witness:
  "load_data numeric_of_decimal datetime_of_iso (Csv csv_header [good_row, odd_row])
     \<noteq> Inl DataLoadError
   \<and> map symbol (projr (load_data numeric_of_decimal datetime_of_iso (Csv csv_header [good_row, odd_row])))
       = [''ABC'', ''XYZ'']
   \<and> map pchng (projr (load_data numeric_of_decimal datetime_of_iso (Csv csv_header [good_row, odd_row])))
       = [Some (5 / 4), None]
   \<and> map market_cap (projr (load_data numeric_of_decimal datetime_of_iso (Csv csv_header [good_row, odd_row])))
       = [Some 1200, None]
   \<and> length (projr (load_data numeric_of_decimal datetime_of_iso (Csv csv_header [good_row, odd_row])))
       = length [good_row, odd_row]"
proof -
  let ?r = "load_data numeric_of_decimal datetime_of_iso (Csv csv_header [good_row, odd_row])"
  have ok: "?r \<noteq> Inl DataLoadError" by code_simp
  have "?r \<noteq> Inl DataLoadError \<longrightarrow>
        (\<exists>header rows recs. Csv csv_header [good_row, odd_row] = Csv header rows \<and> ?r = Inr recs
           \<and> length recs = length rows
           \<and> (\<forall>i. i < length rows \<longrightarrow>
                 recs ! i = normalize_row numeric_of_decimal datetime_of_iso header (rows ! i)))"
    using load_data_keeps_rows[where tn = numeric_of_decimal and td = datetime_of_iso
        and src = "Csv csv_header [good_row, odd_row]"]
    by blast
  with ok obtain header rows recs
    where "Csv csv_header [good_row, odd_row] = Csv header rows" and r: "?r = Inr recs"
      and "length recs = length rows"
    by blast
  then have len: "length recs = length [good_row, odd_row]" by simp
  have s: "map symbol (projr ?r) = [''ABC'', ''XYZ'']" by code_simp
  have p: "map pchng (projr ?r) = [Some (5 / 4), None]" by code_simp
  have m: "map market_cap (projr ?r) = [Some 1200, None]" by code_simp
  show ?thesis using ok s p m r len by simp
qed

text \<open>
  C5 (as stated) fails: a readable file that has every required column, with one good row
  and one row whose date cannot be parsed, yields the load error and no record at all.
\<close>

theorem load_data_bad_date_fails:
  "load_data numeric_of_decimal datetime_of_iso (Csv csv_header [good_row, undated_row])
     = Inl DataLoadError
   \<and> set indexed_columns \<subseteq> set csv_header
   \<and> set [date_column, ''Symbol'', ''LTP'', ''%chng'', ''Series Type'', ''Market Cap'',
          ''Sector'', ''Industry''] \<subseteq> set csv_header"
proof -
  have a: "load_data numeric_of_decimal datetime_of_iso (Csv csv_header [good_row, undated_row])
     = Inl DataLoadError"
    by code_simp
  have b: "set indexed_columns \<subseteq> set csv_header"
    by (simp add: indexed_columns_def csv_header_def)
  have c: "set [date_column, ''Symbol'', ''LTP'', ''%chng'', ''Series Type'', ''Market Cap'',
          ''Sector'', ''Industry''] \<subseteq> set csv_header"
    by (simp add: csv_header_def)
  show ?thesis using a b c by blast
qed

end
